theory Spec2Isabelle
  imports Main
begin

section \<open>Data model\<close>

text \<open>
  The frozen dataclass \<^verbatim>\<open>Shape\<close> of \<^verbatim>\<open>deepbedmap.py\<close>, with its two Python
  integers. The fields \<^verbatim>\<open>y\<close> and \<^verbatim>\<open>x\<close> are called \<open>shape_y\<close> and \<open>shape_x\<close> here, so
  that \<open>y\<close> and \<open>x\<close> stay free for variables. The same class is used for sizes and for tile
  origins (\<^verbatim>\<open>steps.append(Shape(y=y_step, x=x_step))\<close>).
\<close>

datatype Shape = Shape (shape_y: int) (shape_x: int)

text \<open>
  The four configuration values set at the top of the tiling cell: \<^verbatim>\<open>final_shape\<close>,
  \<^verbatim>\<open>ary_shape\<close>, \<^verbatim>\<open>stride\<close> and \<^verbatim>\<open>xtrapad\<close>.
\<close>

record config =
  final_shape :: Shape
  ary_shape :: Shape
  stride :: Shape
  xtrapad :: Shape

text \<open>
  The exceptions the tiling cell can raise by itself. All three are Python's
  \<^verbatim>\<open>ValueError\<close>: \<^verbatim>\<open>range()\<close> with a zero step, \<^verbatim>\<open>np.full\<close> with a negative dimension, and
  an assignment whose right-hand side cannot be broadcast to the target slice.
\<close>

datatype error = RangeStepZero | NegativeDimensions | BroadcastMismatch

text \<open>A Python slice \<^verbatim>\<open>start:stop\<close> with step 1, as the pair of its bounds.\<close>

type_synonym slice = "int \<times> int"

text \<open>
  The primary-resolution window \<^verbatim>\<open>y0, y1, x0, x1\<close> computed for one tile.
\<close>

record window =
  y0 :: int
  y1 :: int
  x0 :: int
  x1 :: int

text \<open>
  The slices with which the four input rasters are cropped for one tile, rows first:
  BEDMAP2 (\<^verbatim>\<open>X\<close>), REMA (\<^verbatim>\<open>W1\<close>), MEaSUREs (\<^verbatim>\<open>W2\<close>) and accumulation (\<^verbatim>\<open>W3\<close>).
\<close>

record crops =
  X_tile_crop :: "slice \<times> slice"
  W1_tile_crop :: "slice \<times> slice"
  W2_tile_crop :: "slice \<times> slice"
  W3_tile_crop :: "slice \<times> slice"

text \<open>
  The array \<^verbatim>\<open>Y_pred.array[0]\<close> returned by the model for one tile, one channel of
  \<open>pred_rows\<close> by \<open>pred_cols\<close> values.
\<close>

record 'a prediction =
  pred_rows :: int
  pred_cols :: int
  pred_at :: "int \<Rightarrow> int \<Rightarrow> 'a"

text \<open>
  The mosaic \<^verbatim>\<open>Y_hat\<close>, indexed by row and column. \<open>None\<close> is the \<^verbatim>\<open>np.nan\<close> the buffer is
  filled with by \<^verbatim>\<open>np.full\<close>; \<open>Some v\<close> is a value stored by a tile's write. Only the
  indices inside \<^verbatim>\<open>final_shape\<close> belong to the array.
\<close>

type_synonym 'a mosaic = "int \<times> int \<Rightarrow> 'a option"

section \<open>Tile scheduler\<close>

text \<open>
  Python's \<^verbatim>\<open>range(start, stop, step)\<close>: ascending for a positive step, descending for a
  negative one, \<^verbatim>\<open>ValueError\<close> for a zero step.
\<close>

function range_up :: "int \<Rightarrow> int \<Rightarrow> int \<Rightarrow> int list" where
  "range_up i stop step =
     (if 0 < step \<and> i < stop then i # range_up (i + step) stop step else [])"
  by pat_completeness auto
termination
  by (relation "measure (\<lambda>(i, stop, step). nat (stop - i))") auto

function range_down :: "int \<Rightarrow> int \<Rightarrow> int \<Rightarrow> int list" where
  "range_down i stop step =
     (if step < 0 \<and> stop < i then i # range_down (i + step) stop step else [])"
  by pat_completeness auto
termination
  by (relation "measure (\<lambda>(i, stop, step). nat (i - stop))") auto

declare range_up.simps [simp del] range_down.simps [simp del]

definition py_range :: "int \<Rightarrow> int \<Rightarrow> int \<Rightarrow> error + int list" where
  "py_range start stop step =
     (if step = 0 then Inl RangeStepZero
      else if 0 < step then Inr (range_up start stop step)
      else Inr (range_down start stop step))"

text \<open>
  The inner loop of the scheduler, run once for every \<^verbatim>\<open>y_step\<close>: the \<^verbatim>\<open>range\<close> over the
  columns is evaluated again in every iteration of the outer loop and its origins are
  appended to \<^verbatim>\<open>steps\<close>.
\<close>

fun steps_rows :: "int list \<Rightarrow> int \<Rightarrow> int \<Rightarrow> Shape list \<Rightarrow> error + Shape list" where
  "steps_rows [] fx sx acc = Inr acc"
| "steps_rows (y_step # ys) fx sx acc =
     (case py_range 0 fx sx of
        Inl e \<Rightarrow> Inl e
      | Inr xs \<Rightarrow> steps_rows ys fx sx (acc @ map (Shape y_step) xs))"

definition steps :: "config \<Rightarrow> error + Shape list" where
  "steps cfg =
     (case py_range 0 (shape_y (final_shape cfg)) (shape_y (stride cfg)) of
        Inl e \<Rightarrow> Inl e
      | Inr ys \<Rightarrow> steps_rows ys (shape_x (final_shape cfg)) (shape_x (stride cfg)) [])"

section \<open>Window mapper\<close>

text \<open>Python's \<^verbatim>\<open>//\<close> on integers is floor division, as \<open>div\<close> on \<open>int\<close> is.\<close>

definition window_of :: "config \<Rightarrow> Shape \<Rightarrow> window" where
  "window_of cfg step =
     \<lparr> y0 = max 0 (shape_y step div 4 - shape_y (xtrapad cfg) - 1),
       y1 = min (shape_y (final_shape cfg) div 4)
                ((shape_y step + shape_y (ary_shape cfg)) div 4 + shape_y (xtrapad cfg) + 1),
       x0 = max 0 (shape_x step div 4 - shape_x (xtrapad cfg) - 1),
       x1 = min (shape_x (final_shape cfg) div 4)
                ((shape_x step + shape_x (ary_shape cfg)) div 4 + shape_x (xtrapad cfg) + 1) \<rparr>"

definition tile_crops :: "window \<Rightarrow> crops" where
  "tile_crops w =
     \<lparr> X_tile_crop = ((y0 w, y1 w), (x0 w, x1 w)),
       W1_tile_crop = ((y0 w * 10, y1 w * 10), (x0 w * 10, x1 w * 10)),
       W2_tile_crop = ((y0 w * 2, y1 w * 2), (x0 w * 2, x1 w * 2)),
       W3_tile_crop = ((y0 w, y1 w), (x0 w, x1 w)) \<rparr>"

definition slice_span :: "slice \<Rightarrow> int" where
  "slice_span s = snd s - fst s"

section \<open>Border trim and stitch\<close>

text \<open>
  How Python resolves the bounds of a slice against an axis of length \<open>n\<close>: a negative
  bound counts from the end, and every bound is clamped into \<open>[0, n]\<close>. The resolved slice
  selects the indices \<open>lo \<le> i < hi\<close>, none when \<open>hi \<le> lo\<close>.
\<close>

definition slice_index :: "int \<Rightarrow> int \<Rightarrow> int" where
  "slice_index n i = (if i < 0 then max 0 (i + n) else min i n)"

definition slice_indices :: "int \<Rightarrow> slice \<Rightarrow> slice" where
  "slice_indices n s = (slice_index n (fst s), slice_index n (snd s))"

definition slice_len :: "slice \<Rightarrow> int" where
  "slice_len s = max 0 (snd s - fst s)"

definition in_slice :: "slice \<Rightarrow> int \<Rightarrow> bool" where
  "in_slice s i \<longleftrightarrow> fst s \<le> i \<and> i < snd s"

definition y_slice :: "config \<Rightarrow> window \<Rightarrow> slice" where
  "y_slice cfg w =
     ((y0 w + shape_y (xtrapad cfg) + 1) * 4, (y1 w - shape_y (xtrapad cfg) - 1) * 4)"

definition x_slice :: "config \<Rightarrow> window \<Rightarrow> slice" where
  "x_slice cfg w =
     ((x0 w + shape_x (xtrapad cfg) + 1) * 4, (x1 w - shape_x (xtrapad cfg) - 1) * 4)"

text \<open>
  The rectangle of \<^verbatim>\<open>Y_hat\<close> that \<^verbatim>\<open>Y_hat[:, y_slice, x_slice]\<close> addresses: both slices
  resolved against the mosaic's own extent.
\<close>

definition target_rect :: "config \<Rightarrow> window \<Rightarrow> slice \<times> slice" where
  "target_rect cfg w =
     (slice_indices (shape_y (final_shape cfg)) (y_slice cfg w),
      slice_indices (shape_x (final_shape cfg)) (x_slice cfg w))"

definition in_rect :: "slice \<times> slice \<Rightarrow> int \<times> int \<Rightarrow> bool" where
  "in_rect rect p \<longleftrightarrow> in_slice (fst rect) (fst p) \<and> in_slice (snd rect) (snd p)"

text \<open>
  The trimmed prediction
  \<^verbatim>\<open>Y_pred.array[0, :, xtrapad.y * 4 : -xtrapad.y * 4, xtrapad.x * 4 : -xtrapad.x * 4]\<close>,
  as the two slices resolved against the prediction's own size.
\<close>

definition trim_rect :: "config \<Rightarrow> 'a prediction \<Rightarrow> slice \<times> slice" where
  "trim_rect cfg Y_pred =
     (slice_indices (pred_rows Y_pred)
        (shape_y (xtrapad cfg) * 4, - shape_y (xtrapad cfg) * 4),
      slice_indices (pred_cols Y_pred)
        (shape_x (xtrapad cfg) * 4, - shape_x (xtrapad cfg) * 4))"

text \<open>
  NumPy's rule for assigning an axis of length \<open>k\<close> to a target axis of length \<open>n\<close>: the
  lengths agree, or the value has length 1 and is repeated.
\<close>

definition broadcastable :: "int \<Rightarrow> int \<Rightarrow> bool" where
  "broadcastable k n \<longleftrightarrow> k = n \<or> k = 1"

definition source_index :: "slice \<Rightarrow> slice \<Rightarrow> int \<Rightarrow> int" where
  "source_index src tgt i =
     fst src + (if slice_len src = 1 then 0 else i - fst tgt)"

text \<open>
  The write \<^verbatim>\<open>Y_hat[:, y_slice, x_slice] = ...\<close> of one tile. When the shapes cannot be
  broadcast, NumPy raises \<^verbatim>\<open>ValueError\<close> and leaves \<^verbatim>\<open>Y_hat\<close> as it was; the script
  re-raises it.
\<close>

definition stitch ::
  "config \<Rightarrow> window \<Rightarrow> 'a prediction \<Rightarrow> 'a mosaic \<Rightarrow> error + 'a mosaic" where
  "stitch cfg w Y_pred Y_hat =
     (let tgt = target_rect cfg w; src = trim_rect cfg Y_pred
      in if broadcastable (slice_len (fst src)) (slice_len (fst tgt))
            \<and> broadcastable (slice_len (snd src)) (slice_len (snd tgt))
         then Inr (\<lambda>p. if in_rect tgt p
                        then Some (pred_at Y_pred
                                     (source_index (fst src) (fst tgt) (fst p))
                                     (source_index (snd src) (snd tgt) (snd p)))
                        else Y_hat p)
         else Inl BroadcastMismatch)"

section \<open>The tiling loop\<close>

text \<open>
  One iteration of \<^verbatim>\<open>for step in steps\<close>. The trained model is outside this file; it is the
  parameter \<open>forward\<close>, from the crops of a tile to its prediction.
\<close>

definition predict_tile ::
  "config \<Rightarrow> (crops \<Rightarrow> 'a prediction) \<Rightarrow> Shape \<Rightarrow> 'a mosaic \<Rightarrow> error + 'a mosaic" where
  "predict_tile cfg forward step Y_hat =
     (let w = window_of cfg step
      in stitch cfg w (forward (tile_crops w)) Y_hat)"

fun tile_loop ::
  "config \<Rightarrow> (crops \<Rightarrow> 'a prediction) \<Rightarrow> Shape list \<Rightarrow> 'a mosaic \<Rightarrow> error + 'a mosaic" where
  "tile_loop cfg forward [] Y_hat = Inr Y_hat"
| "tile_loop cfg forward (step # rest) Y_hat =
     (case predict_tile cfg forward step Y_hat of
        Inl e \<Rightarrow> Inl e
      | Inr Y_hat' \<Rightarrow> tile_loop cfg forward rest Y_hat')"

text \<open>
  The whole cell, up to the array that is handed to \<^verbatim>\<open>data_prep.save_array_to_grid\<close> in the
  next cell: allocate \<^verbatim>\<open>Y_hat\<close>, schedule the tiles, run the loop. Nothing else is done to
  \<^verbatim>\<open>Y_hat\<close> between the loop and the export.
\<close>

definition Y_hat_init :: "'a mosaic" where
  "Y_hat_init = (\<lambda>p. None)"

definition tile_and_predict ::
  "config \<Rightarrow> (crops \<Rightarrow> 'a prediction) \<Rightarrow> error + 'a mosaic" where
  "tile_and_predict cfg forward =
     (if shape_y (final_shape cfg) < 0 \<or> shape_x (final_shape cfg) < 0
      then Inl NegativeDimensions
      else case steps cfg of
             Inl e \<Rightarrow> Inl e
           | Inr ss \<Rightarrow> tile_loop cfg forward ss Y_hat_init)"

text \<open>The tiles of a schedule whose write covers a given pixel of the mosaic.\<close>

definition writers :: "config \<Rightarrow> Shape list \<Rightarrow> int \<times> int \<Rightarrow> Shape list" where
  "writers cfg ss p = filter (\<lambda>step. in_rect (target_rect cfg (window_of cfg step)) p) ss"

definition scheduled_writers :: "config \<Rightarrow> int \<times> int \<Rightarrow> error + Shape list" where
  "scheduled_writers cfg p =
     (case steps cfg of Inl e \<Rightarrow> Inl e | Inr ss \<Rightarrow> Inr (writers cfg ss p))"

text \<open>
  A stand-in for the model with the geometry the stitching code relies on: the prediction
  is four times the \<^verbatim>\<open>X\<close> crop after one pixel is lost on every side (as
  \<^verbatim>\<open>X_tile[0, 0, 1:-1, 1:-1]\<close> rescaled by 4 elsewhere in the script), every value \<open>v\<close>.
\<close>

definition const_forward :: "'a \<Rightarrow> crops \<Rightarrow> 'a prediction" where
  "const_forward v c =
     \<lparr> pred_rows = max 0 ((slice_span (fst (X_tile_crop c)) - 2) * 4),
       pred_cols = max 0 ((slice_span (snd (X_tile_crop c)) - 2) * 4),
       pred_at = (\<lambda>i j. v) \<rparr>"

section \<open>The window formula as the specification words it\<close>

text \<open>
  The specification gives the primary window with a floor in the lower bound and a ceiling
  in the upper bound, against a source extent. \<open>spec_window\<close> follows those words;
  \<open>window_of\<close> above follows the code. In the script the source extent of the primary
  raster is \<^verbatim>\<open>final_shape // 4\<close>.
\<close>

definition ceil_div :: "int \<Rightarrow> int \<Rightarrow> int" where
  "ceil_div a b = - ((- a) div b)"

definition spec_window :: "int \<Rightarrow> Shape \<Rightarrow> Shape \<Rightarrow> Shape \<Rightarrow> Shape \<Rightarrow> window" where
  "spec_window r source_extent origin ary xtra =
     \<lparr> y0 = max 0 (shape_y origin div r - shape_y xtra - 1),
       y1 = min (shape_y source_extent)
                (ceil_div (shape_y origin + shape_y ary) r + shape_y xtra + 1),
       x0 = max 0 (shape_x origin div r - shape_x xtra - 1),
       x1 = min (shape_x source_extent)
                (ceil_div (shape_x origin + shape_x ary) r + shape_x xtra + 1) \<rparr>"

definition primary_extent :: "config \<Rightarrow> Shape" where
  "primary_extent cfg =
     Shape (shape_y (final_shape cfg) div 4) (shape_x (final_shape cfg) div 4)"

section \<open>Configurations\<close>

text \<open>The configuration of the script itself.\<close>

definition cfg_ref :: config where
  "cfg_ref = \<lparr> final_shape = Shape 18000 22000, ary_shape = Shape 1000 1000,
               stride = Shape 1000 1000, xtrapad = Shape 18 18 \<rparr>"

text \<open>The boundary scenario: a 1000 by 1000 mosaic cut into tiles of 400 by 400.\<close>

definition cfg_1000 :: "Shape \<Rightarrow> config" where
  "cfg_1000 p = \<lparr> final_shape = Shape 1000 1000, ary_shape = Shape 400 400,
                  stride = Shape 400 400, xtrapad = p \<rparr>"

section \<open>The region the tiles write\<close>

text \<open>
  The part of the mosaic that lies inside the padding and one more primary pixel on every
  side: what is left of the extent \<^verbatim>\<open>final_shape // 4 * 4\<close> when the first and the last
  \<^verbatim>\<open>(xtrapad + 1) * 4\<close> rows and columns are taken off.
\<close>

definition stitched_region :: "config \<Rightarrow> slice \<times> slice" where
  "stitched_region cfg =
     (((shape_y (xtrapad cfg) + 1) * 4, (shape_y (final_shape cfg) div 4 - shape_y (xtrapad cfg) - 1) * 4),
      ((shape_x (xtrapad cfg) + 1) * 4, (shape_x (final_shape cfg) div 4 - shape_x (xtrapad cfg) - 1) * 4))"

text \<open>
  The write slice of one axis, as a function of the tile's origin on that axis: the bounds
  of \<open>y_slice\<close> (or \<open>x_slice\<close>) with the window's bounds written out, resolved against the
  mosaic's length.
\<close>

definition axis_slice :: "int \<Rightarrow> int \<Rightarrow> int \<Rightarrow> int \<Rightarrow> slice" where
  "axis_slice f a p s =
     slice_indices f ((max 0 (s div 4 - p - 1) + p + 1) * 4,
                      (min (f div 4) ((s + a) div 4 + p + 1) - p - 1) * 4)"

section \<open>Small configurations\<close>

text \<open>Small configurations on which whole runs are evaluated.\<close>

definition cfg_small :: config where
  "cfg_small = \<lparr> final_shape = Shape 24 24, ary_shape = Shape 12 12,
                 stride = Shape 12 12, xtrapad = Shape 1 1 \<rparr>"


definition cfg_unaligned :: config where
  "cfg_unaligned = \<lparr> final_shape = Shape 40 40, ary_shape = Shape 10 10,
                 stride = Shape 10 10, xtrapad = Shape 1 1 \<rparr>"

section \<open>The scheduler's origins\<close>

lemma range_up_mem:
  "e \<in> set (range_up i stop step) \<Longrightarrow> i \<le> e \<and> e < stop \<and> 0 < step \<and> step dvd e - i"
proof (induction i stop step rule: range_up.induct)
  case (1 i stop step)
  show ?case
  proof (cases "0 < step \<and> i < stop")
    case True
    with "1.prems" have "e = i \<or> e \<in> set (range_up (i + step) stop step)"
      by (simp add: range_up.simps [of i])
    then show ?thesis
    proof
      assume "e = i" with True show ?thesis by simp
    next
      assume "e \<in> set (range_up (i + step) stop step)"
      with "1.IH" True have h: "i + step \<le> e \<and> e < stop \<and> step dvd e - (i + step)" by simp
      then have "step dvd e - i"
        using dvd_add [of step "e - (i + step)" step] by (simp add: algebra_simps)
      with h True show ?thesis by simp
    qed
  next
    case False
    with "1.prems" show ?thesis by (simp add: range_up.simps [of i])
  qed
qed

lemma range_down_empty: "i \<le> stop \<Longrightarrow> range_down i stop step = []"
  by (simp add: range_down.simps)

lemma py_range_mem:
  assumes "py_range 0 f s = Inr xs" and "0 \<le> f" and "e \<in> set xs"
  shows "0 \<le> e \<and> e < f \<and> 0 < s \<and> s dvd e"
proof -
  from assms have "s \<noteq> 0" by (auto simp: py_range_def split: if_splits)
  moreover have "\<not> s < 0"
    using assms by (auto simp: py_range_def range_down_empty split: if_splits)
  ultimately have "0 < s" by simp
  with assms have "e \<in> set (range_up 0 f s)" by (simp add: py_range_def)
  from range_up_mem [OF this] show ?thesis by simp
qed

lemma steps_rows_Inr:
  "py_range 0 fx sx = Inr xs \<Longrightarrow>
   steps_rows ys fx sx acc = Inr (acc @ concat (map (\<lambda>yy. map (Shape yy) xs) ys))"
  by (induction ys arbitrary: acc) simp_all

lemma steps_rows_Inl:
  "py_range 0 fx sx = Inl e \<Longrightarrow> ys \<noteq> [] \<Longrightarrow> steps_rows ys fx sx acc = Inl e"
  by (cases ys) simp_all

lemma steps_mem:
  assumes "steps cfg = Inr ss" and "step \<in> set ss"
  shows "\<exists>ys xs. py_range 0 (shape_y (final_shape cfg)) (shape_y (stride cfg)) = Inr ys
            \<and> py_range 0 (shape_x (final_shape cfg)) (shape_x (stride cfg)) = Inr xs
            \<and> shape_y step \<in> set ys \<and> shape_x step \<in> set xs"
proof -
  from assms(1) obtain ys
    where ys: "py_range 0 (shape_y (final_shape cfg)) (shape_y (stride cfg)) = Inr ys"
      and r: "steps_rows ys (shape_x (final_shape cfg)) (shape_x (stride cfg)) [] = Inr ss"
    by (auto simp: steps_def split: sum.splits)
  have ne: "ys \<noteq> []" using r assms(2) by (cases ys) auto
  show ?thesis
  proof (cases "py_range 0 (shape_x (final_shape cfg)) (shape_x (stride cfg))")
    case (Inl e)
    from steps_rows_Inl [OF this ne] r show ?thesis by simp
  next
    case (Inr xs)
    from steps_rows_Inr [OF this, of ys "[]"] r
    have "ss = concat (map (\<lambda>yy. map (Shape yy) xs) ys)" by simp
    with assms(2) have "shape_y step \<in> set ys \<and> shape_x step \<in> set xs" by auto
    with ys Inr show ?thesis by blast
  qed
qed

lemma scheduled_origin:
  assumes "steps cfg = Inr ss" and "step \<in> set ss"
    and "0 \<le> shape_y (final_shape cfg)" and "0 \<le> shape_x (final_shape cfg)"
  shows "0 \<le> shape_y step \<and> shape_y step < shape_y (final_shape cfg)
       \<and> 0 < shape_y (stride cfg) \<and> shape_y (stride cfg) dvd shape_y step
       \<and> 0 \<le> shape_x step \<and> shape_x step < shape_x (final_shape cfg)
       \<and> 0 < shape_x (stride cfg) \<and> shape_x (stride cfg) dvd shape_x step"
proof -
  from steps_mem [OF assms(1,2)] obtain ys xs where
    "py_range 0 (shape_y (final_shape cfg)) (shape_y (stride cfg)) = Inr ys"
    "py_range 0 (shape_x (final_shape cfg)) (shape_x (stride cfg)) = Inr xs"
    "shape_y step \<in> set ys" "shape_x step \<in> set xs" by blast
  with py_range_mem assms(3,4) show ?thesis by blast
qed

lemma steps_1000:
  "steps (cfg_1000 p) =
     Inr [Shape 0 0, Shape 0 400, Shape 0 800,
          Shape 400 0, Shape 400 400, Shape 400 800,
          Shape 800 0, Shape 800 400, Shape 800 800]"
  by (simp add: steps_def cfg_1000_def py_range_def range_up.simps)

section \<open>The window mapper\<close>

lemma ceil_div_dvd: "b dvd a \<Longrightarrow> ceil_div a b = a div b"
  unfolding ceil_div_def by (metis dvd_neg_div minus_minus)

text \<open>
  Claim C2, as amended. The lower bounds of the window are the ones the specification
  gives. The upper bounds are
  \<open>min (final_shape div 4) ((step + ary_shape) div 4 + xtrapad + 1)\<close> with floor division,
  not a ceiling; the window is the specification's whenever \<open>step + ary_shape\<close> is a
  multiple of 4 on both axes.
\<close>

theorem C2_window_floor:
  "y0 (window_of cfg step)
     = y0 (spec_window 4 (primary_extent cfg) step (ary_shape cfg) (xtrapad cfg))
   \<and> x0 (window_of cfg step)
     = x0 (spec_window 4 (primary_extent cfg) step (ary_shape cfg) (xtrapad cfg))
   \<and> y1 (window_of cfg step) =
       min (shape_y (final_shape cfg) div 4)
           ((shape_y step + shape_y (ary_shape cfg)) div 4 + shape_y (xtrapad cfg) + 1)
   \<and> x1 (window_of cfg step) =
       min (shape_x (final_shape cfg) div 4)
           ((shape_x step + shape_x (ary_shape cfg)) div 4 + shape_x (xtrapad cfg) + 1)
   \<and> (4 dvd shape_y step + shape_y (ary_shape cfg)
        \<and> 4 dvd shape_x step + shape_x (ary_shape cfg)
      \<longrightarrow> window_of cfg step
            = spec_window 4 (primary_extent cfg) step (ary_shape cfg) (xtrapad cfg))"
  by (simp add: window_of_def spec_window_def primary_extent_def ceil_div_dvd)

theorem C2_window_floor_witness:
  "(4::int) dvd 17000 + 1000 \<and> (4::int) dvd 21000 + 1000
   \<and> window_of cfg_ref (Shape 17000 21000)
       = spec_window 4 (primary_extent cfg_ref) (Shape 17000 21000) (Shape 1000 1000) (Shape 18 18)
   \<and> window_of cfg_ref (Shape 17000 21000) = \<lparr> y0 = 4231, y1 = 4500, x0 = 5231, x1 = 5500 \<rparr>"
  using C2_window_floor [of cfg_ref "Shape 17000 21000"]
  by (simp add: cfg_ref_def window_of_def)

text \<open>
  Claim C2 as stated fails: for a tile of 10 by 10 at the origin the code's upper row bound
  is \<open>10 div 4 + 18 + 1 = 21\<close>, the specification's ceiling gives 22.
\<close>

theorem C2_counterexample:
  "y1 (window_of (cfg_ref\<lparr>ary_shape := Shape 10 10\<rparr>) (Shape 0 0)) = 21
   \<and> y1 (spec_window 4 (primary_extent cfg_ref) (Shape 0 0) (Shape 10 10) (Shape 18 18)) = 22"
  by (simp add: cfg_ref_def window_of_def spec_window_def primary_extent_def ceil_div_def)

lemma axis_window_ordered:
  fixes s f a p :: int
  assumes "0 \<le> s" "s < f" "0 \<le> a" "0 \<le> p"
  shows "0 \<le> max 0 (s div 4 - p - 1)"
    and "max 0 (s div 4 - p - 1) \<le> min (f div 4) ((s + a) div 4 + p + 1)"
    and "min (f div 4) ((s + a) div 4 + p + 1) \<le> f div 4"
  using assms by auto

text \<open>
  Claim C7. For every scheduled origin, with the sizes of the configuration non-negative
  as the data model has them, the window is ordered and lies inside the primary raster's
  extent \<^verbatim>\<open>final_shape // 4\<close>: on each axis \<open>0 \<le> start \<le> end \<le> extent\<close>.
\<close>

theorem C7_window_ordered:
  assumes "steps cfg = Inr ss" and "step \<in> set ss"
    and "0 \<le> shape_y (final_shape cfg)" and "0 \<le> shape_x (final_shape cfg)"
    and "0 \<le> shape_y (ary_shape cfg)" and "0 \<le> shape_x (ary_shape cfg)"
    and "0 \<le> shape_y (xtrapad cfg)" and "0 \<le> shape_x (xtrapad cfg)"
  shows "0 \<le> y0 (window_of cfg step) \<and> y0 (window_of cfg step) \<le> y1 (window_of cfg step)
       \<and> y1 (window_of cfg step) \<le> shape_y (final_shape cfg) div 4
       \<and> 0 \<le> x0 (window_of cfg step) \<and> x0 (window_of cfg step) \<le> x1 (window_of cfg step)
       \<and> x1 (window_of cfg step) \<le> shape_x (final_shape cfg) div 4"
proof -
  note o = scheduled_origin [OF assms(1-4)]
  have "0 \<le> shape_y step" "shape_y step < shape_y (final_shape cfg)"
    "0 \<le> shape_x step" "shape_x step < shape_x (final_shape cfg)" using o by simp_all
  from axis_window_ordered [OF this(1,2) assms(5,7)]
    axis_window_ordered [OF this(3,4) assms(6,8)]
  show ?thesis by (simp add: window_of_def)
qed

theorem C7_window_ordered_witness:
  "steps (cfg_1000 (Shape 18 18)) =
     Inr [Shape 0 0, Shape 0 400, Shape 0 800,
          Shape 400 0, Shape 400 400, Shape 400 800,
          Shape 800 0, Shape 800 400, Shape 800 800]
   \<and> window_of (cfg_1000 (Shape 18 18)) (Shape 800 0)
       = \<lparr> y0 = 181, y1 = 250, x0 = 0, x1 = 119 \<rparr>
   \<and> 0 \<le> y0 (window_of (cfg_1000 (Shape 18 18)) (Shape 800 0))
   \<and> y0 (window_of (cfg_1000 (Shape 18 18)) (Shape 800 0))
       \<le> y1 (window_of (cfg_1000 (Shape 18 18)) (Shape 800 0))
   \<and> y1 (window_of (cfg_1000 (Shape 18 18)) (Shape 800 0)) \<le> 1000 div 4"
proof -
  have m: "Shape 800 0 \<in> set [Shape 0 0, Shape 0 400, Shape 0 800,
          Shape 400 0, Shape 400 400, Shape 400 800,
          Shape 800 0, Shape 800 400, Shape 800 800]" by simp
  have w: "window_of (cfg_1000 (Shape 18 18)) (Shape 800 0)
       = \<lparr> y0 = 181, y1 = 250, x0 = 0, x1 = 119 \<rparr>"
    by (simp add: window_of_def cfg_1000_def)
  from C7_window_ordered [OF steps_1000 m, of "Shape 18 18"] w steps_1000 [of "Shape 18 18"]
  show ?thesis by (simp add: cfg_1000_def)
qed

text \<open>
  Claim C8. The crops of the four rasters are cut from the one primary window: REMA with
  both bounds of each axis multiplied by 10, MEaSUREs with both multiplied by 2, and the
  accumulation raster with the bounds of the BEDMAP2 crop itself. The scaling is integer
  multiplication.
\<close>

theorem C8_crops_scaled:
  "X_tile_crop (tile_crops (window_of cfg step)) =
     ((y0 (window_of cfg step), y1 (window_of cfg step)),
      (x0 (window_of cfg step), x1 (window_of cfg step)))
   \<and> W1_tile_crop (tile_crops (window_of cfg step)) =
     ((10 * y0 (window_of cfg step), 10 * y1 (window_of cfg step)),
      (10 * x0 (window_of cfg step), 10 * x1 (window_of cfg step)))
   \<and> W2_tile_crop (tile_crops (window_of cfg step)) =
     ((2 * y0 (window_of cfg step), 2 * y1 (window_of cfg step)),
      (2 * x0 (window_of cfg step), 2 * x1 (window_of cfg step)))
   \<and> W3_tile_crop (tile_crops (window_of cfg step))
       = X_tile_crop (tile_crops (window_of cfg step))"
  by (simp add: tile_crops_def)

text \<open>
  Claim C9. With tiles of 100 by 100, a padding of 18 and the tile at origin (400, 400),
  and a mosaic large enough for the far edge not to clamp the window (a primary extent of
  at least 144 on each axis), the REMA crop spans \<open>(100 div 4 + 2 * 18 + 2) * 10 = 630\<close>
  pixels on each axis.
\<close>

theorem C9_span_630:
  assumes "ary_shape cfg = Shape 100 100" and "xtrapad cfg = Shape 18 18"
    and "144 \<le> shape_y (final_shape cfg) div 4" and "144 \<le> shape_x (final_shape cfg) div 4"
  shows "slice_span (fst (W1_tile_crop (tile_crops (window_of cfg (Shape 400 400)))))
           = (100 div 4 + 2 * 18 + 2) * 10
       \<and> slice_span (snd (W1_tile_crop (tile_crops (window_of cfg (Shape 400 400)))))
           = (100 div 4 + 2 * 18 + 2) * 10
       \<and> W1_tile_crop (tile_crops (window_of cfg (Shape 400 400))) = ((810, 1440), (810, 1440))"
  using assms by (simp add: tile_crops_def window_of_def slice_span_def)

theorem C9_span_630_witness:
  "ary_shape (cfg_ref\<lparr>ary_shape := Shape 100 100\<rparr>) = Shape 100 100
   \<and> xtrapad (cfg_ref\<lparr>ary_shape := Shape 100 100\<rparr>) = Shape 18 18
   \<and> (144::int) \<le> 18000 div 4 \<and> (144::int) \<le> 22000 div 4
   \<and> slice_span (fst (W1_tile_crop (tile_crops
        (window_of (cfg_ref\<lparr>ary_shape := Shape 100 100\<rparr>) (Shape 400 400))))) = 630"
  using C9_span_630 [of "cfg_ref\<lparr>ary_shape := Shape 100 100\<rparr>"]
  by (simp add: cfg_ref_def slice_span_def)

section \<open>Strides that are not positive\<close>

text \<open>
  Claim C6, as amended. The script has no check of the stride; what happens is what
  \<^verbatim>\<open>range\<close> does. A zero row stride raises \<^verbatim>\<open>ValueError\<close> in the first \<^verbatim>\<open>range\<close>
  call, before any origin exists, and the run fails whatever the model is. A zero column
  stride raises it in the first iteration of the outer loop, when there is one (a positive
  row stride and a mosaic with rows). A negative row stride raises nothing: for a
  non-negative extent the schedule is empty, no tile is processed, and the untouched
  mosaic is the result of the run.
\<close>

theorem C6_stride_errors:
  "(shape_y (stride cfg) = 0
      \<longrightarrow> steps cfg = Inl RangeStepZero \<and> isl (tile_and_predict cfg forward))
   \<and> (shape_x (stride cfg) = 0 \<and> 0 < shape_y (stride cfg) \<and> 0 < shape_y (final_shape cfg)
      \<longrightarrow> steps cfg = Inl RangeStepZero \<and> isl (tile_and_predict cfg forward))
   \<and> (shape_y (stride cfg) < 0 \<and> 0 \<le> shape_y (final_shape cfg)
        \<and> 0 \<le> shape_x (final_shape cfg)
      \<longrightarrow> steps cfg = Inr [] \<and> tile_and_predict cfg forward = Inr Y_hat_init)"
  by (auto simp add: tile_and_predict_def steps_def py_range_def range_down_empty
      range_up.simps [of 0])

theorem C6_stride_errors_witness:
  "steps (cfg_ref\<lparr>stride := Shape 0 1000\<rparr>) = Inl RangeStepZero
   \<and> steps (cfg_ref\<lparr>stride := Shape 1000 0\<rparr>) = Inl RangeStepZero
   \<and> steps (cfg_ref\<lparr>stride := Shape (- 1000) 1000\<rparr>) = Inr []
   \<and> tile_and_predict (cfg_ref\<lparr>stride := Shape (- 1000) 1000\<rparr>) (const_forward (0::int))
       = Inr Y_hat_init"
  using C6_stride_errors [of "cfg_ref\<lparr>stride := Shape 0 1000\<rparr>" "const_forward (0::int)"]
    C6_stride_errors [of "cfg_ref\<lparr>stride := Shape 1000 0\<rparr>" "const_forward (0::int)"]
    C6_stride_errors [of "cfg_ref\<lparr>stride := Shape (- 1000) 1000\<rparr>" "const_forward (0::int)"]
  by (simp add: cfg_ref_def)

text \<open>
  Claim C6 as stated fails for a negative stride: with a stride of -1000 on both axes the
  scheduler raises nothing and returns the empty schedule.
\<close>

theorem C6_counterexample:
  "shape_y (stride (cfg_ref\<lparr>stride := Shape (- 1000) (- 1000)\<rparr>)) \<le> 0
   \<and> steps (cfg_ref\<lparr>stride := Shape (- 1000) (- 1000)\<rparr>) = Inr []"
  by (simp add: cfg_ref_def steps_def py_range_def range_down.simps)

section \<open>Coverage of the mosaic\<close>

lemma resolve_slice:
  assumes "0 \<le> n" "0 \<le> start" "stop \<le> n" "stop < 0 \<longrightarrow> n \<le> start"
  shows "in_slice (slice_indices n (start, stop)) r \<longleftrightarrow> start \<le> r \<and> r < stop"
  using assms by (auto simp: in_slice_def slice_indices_def slice_index_def)

lemma axis_slice_plain:
  assumes "0 \<le> f" "0 \<le> s" "0 \<le> a" "0 \<le> p"
  shows "in_slice (axis_slice f a p s) r \<longleftrightarrow>
           (max 0 (s div 4 - p - 1) + p + 1) * 4 \<le> r
           \<and> r < (min (f div 4) ((s + a) div 4 + p + 1) - p - 1) * 4"
  unfolding axis_slice_def
proof (rule resolve_slice)
  define F where "F = f div 4"
  define E where "E = (s + a) div 4"
  define S where "S = s div 4"
  have q: "0 \<le> E" "0 \<le> S" "F * 4 \<le> f" "f < F * 4 + 4"
    using assms by (simp_all add: F_def E_def S_def)
  show "0 \<le> f" by fact
  show "0 \<le> (max 0 (s div 4 - p - 1) + p + 1) * 4" using assms by simp
  have "(min F (E + p + 1) - p - 1) * 4 \<le> f" using assms q by (simp add: min_def)
  then show "(min (f div 4) ((s + a) div 4 + p + 1) - p - 1) * 4 \<le> f"
    by (simp add: F_def E_def)
  have "(min F (E + p + 1) - p - 1) * 4 < 0 \<longrightarrow> f \<le> (max 0 (S - p - 1) + p + 1) * 4"
    using assms q unfolding min_def max_def by presburger
  then show "(min (f div 4) ((s + a) div 4 + p + 1) - p - 1) * 4 < 0
      \<longrightarrow> f \<le> (max 0 (s div 4 - p - 1) + p + 1) * 4"
    by (simp add: F_def E_def S_def)
qed

lemma axis_cover:
  assumes "0 \<le> f" "0 \<le> s" "0 \<le> a" "0 \<le> p"
  shows "in_slice (axis_slice f a p s) r \<longleftrightarrow>
           in_slice ((p + 1) * 4, (f div 4 - p - 1) * 4) r
           \<and> s \<le> 4 * (r div 4) + 3 \<and> 4 * (r div 4) + 3 < s + a"
proof -
  have a1: "\<And>m::int. m * 4 \<le> r \<longleftrightarrow> m \<le> r div 4" by presburger
  have a2: "\<And>m::int. r < m * 4 \<longleftrightarrow> r div 4 < m" by presburger
  have a3: "s div 4 \<le> r div 4 \<longleftrightarrow> s \<le> 4 * (r div 4) + 3" by presburger
  have a4: "r div 4 < (s + a) div 4 \<longleftrightarrow> 4 * (r div 4) + 3 < s + a" by presburger
  have "(max 0 (s div 4 - p - 1) + p + 1) * 4 \<le> r
      \<longleftrightarrow> (p + 1) * 4 \<le> r \<and> s \<le> 4 * (r div 4) + 3"
    unfolding a1 a3 [symmetric] by auto
  moreover have "r < (min (f div 4) ((s + a) div 4 + p + 1) - p - 1) * 4
      \<longleftrightarrow> r < (f div 4 - p - 1) * 4 \<and> 4 * (r div 4) + 3 < s + a"
    unfolding a2 a4 [symmetric] by auto
  ultimately show ?thesis
    unfolding axis_slice_plain [OF assms] by (auto simp: in_slice_def)
qed

lemma target_axis:
  "in_rect (target_rect cfg (window_of cfg step)) (r, c) \<longleftrightarrow>
     in_slice (axis_slice (shape_y (final_shape cfg)) (shape_y (ary_shape cfg))
                 (shape_y (xtrapad cfg)) (shape_y step)) r
     \<and> in_slice (axis_slice (shape_x (final_shape cfg)) (shape_x (ary_shape cfg))
                 (shape_x (xtrapad cfg)) (shape_x step)) c"
  by (simp add: in_rect_def target_rect_def window_of_def y_slice_def x_slice_def axis_slice_def)

lemma count_range_up:
  "0 < a \<Longrightarrow> t < f \<Longrightarrow>
   length (filter (\<lambda>s. s \<le> t \<and> t < s + a) (range_up i f a)) = (if i \<le> t then 1 else 0)"
proof (induction i f a rule: range_up.induct)
  case (1 i stop step)
  show ?case
  proof (cases "i < stop")
    case True
    with "1.prems" have IH: "length (filter (\<lambda>s. s \<le> t \<and> t < s + step) (range_up (i + step) stop step))
        = (if i + step \<le> t then 1 else 0)"
      using "1.IH" by simp
    have "range_up i stop step = i # range_up (i + step) stop step"
      using True "1.prems" by (simp add: range_up.simps [of i])
    then show ?thesis using IH "1.prems" by auto
  next
    case False
    then show ?thesis using "1.prems" by (simp add: range_up.simps [of i])
  qed
qed

lemma filter_grid:
  "filter (\<lambda>step. P (shape_y step) \<and> Q (shape_x step))
      (concat (map (\<lambda>yy. map (Shape yy) xs) ys))
   = concat (map (\<lambda>yy. map (Shape yy) (filter Q xs)) (filter P ys))"
  by (induction ys) (simp_all add: filter_map comp_def)

lemma length_grid:
  "length (concat (map (\<lambda>yy. map (Shape yy) xs) ys)) = length ys * length xs"
  by (induction ys) simp_all

lemma steps_positive:
  assumes "0 < shape_y (stride cfg)" "0 < shape_x (stride cfg)"
  shows "steps cfg =
     Inr (concat (map (\<lambda>yy. map (Shape yy)
                        (range_up 0 (shape_x (final_shape cfg)) (shape_x (stride cfg))))
            (range_up 0 (shape_y (final_shape cfg)) (shape_y (stride cfg)))))"
proof -
  have "py_range 0 (shape_x (final_shape cfg)) (shape_x (stride cfg))
      = Inr (range_up 0 (shape_x (final_shape cfg)) (shape_x (stride cfg)))"
    using assms by (simp add: py_range_def)
  from steps_rows_Inr [OF this, of _ "[]"] assms show ?thesis
    by (simp add: steps_def py_range_def)
qed

lemma writers_count:
  assumes eq: "stride cfg = ary_shape cfg"
    and pos: "0 < shape_y (ary_shape cfg)" "0 < shape_x (ary_shape cfg)"
    and pad: "0 \<le> shape_y (xtrapad cfg)" "0 \<le> shape_x (xtrapad cfg)"
    and fin: "0 \<le> shape_y (final_shape cfg)" "0 \<le> shape_x (final_shape cfg)"
    and ss: "steps cfg = Inr ss"
  shows "length (writers cfg ss (r, c)) = (if in_rect (stitched_region cfg) (r, c) then 1 else 0)"
proof -
  define fy fx ay ax py px where d: "fy = shape_y (final_shape cfg)" "fx = shape_x (final_shape cfg)"
    "ay = shape_y (ary_shape cfg)" "ax = shape_x (ary_shape cfg)"
    "py = shape_y (xtrapad cfg)" "px = shape_x (xtrapad cfg)"
  define ty tx where t: "ty = 4 * (r div 4) + 3" "tx = 4 * (c div 4) + 3"
  define Ry Rx where R: "Ry = in_slice ((py + 1) * 4, (fy div 4 - py - 1) * 4) r"
    "Rx = in_slice ((px + 1) * 4, (fx div 4 - px - 1) * 4) c"
  have sp: "0 < shape_y (stride cfg)" "0 < shape_x (stride cfg)" using eq pos by simp_all
  have grid: "ss = concat (map (\<lambda>yy. map (Shape yy) (range_up 0 fx ax)) (range_up 0 fy ay))"
    using steps_positive [OF sp] ss eq by (simp add: d)
  have reg: "in_rect (stitched_region cfg) (r, c) \<longleftrightarrow> Ry \<and> Rx"
    by (simp add: in_rect_def stitched_region_def R d)
  have cover: "in_rect (target_rect cfg (window_of cfg step)) (r, c) \<longleftrightarrow>
      (Ry \<and> shape_y step \<le> ty \<and> ty < shape_y step + ay)
      \<and> (Rx \<and> shape_x step \<le> tx \<and> tx < shape_x step + ax)" if "step \<in> set ss" for step
  proof -
    from scheduled_origin [OF ss that fin]
    have o: "0 \<le> shape_y step" "0 \<le> shape_x step" by simp_all
    have ay0: "0 \<le> ay" "0 \<le> ax" using pos by (simp_all add: d)
    show ?thesis
      unfolding target_axis
      using axis_cover [OF fin(1) o(1) ay0(1)[unfolded d] pad(1), of r]
        axis_cover [OF fin(2) o(2) ay0(2)[unfolded d] pad(2), of c]
      by (simp add: d t R)
  qed
  have "writers cfg ss (r, c) =
      filter (\<lambda>step. (Ry \<and> shape_y step \<le> ty \<and> ty < shape_y step + ay)
                    \<and> (Rx \<and> shape_x step \<le> tx \<and> tx < shape_x step + ax)) ss"
    unfolding writers_def by (rule filter_cong [OF refl]) (rule cover)
  then have len: "length (writers cfg ss (r, c)) =
      length (filter (\<lambda>s. Ry \<and> s \<le> ty \<and> ty < s + ay) (range_up 0 fy ay))
      * length (filter (\<lambda>s. Rx \<and> s \<le> tx \<and> tx < s + ax) (range_up 0 fx ax))"
    unfolding grid
    by (simp only: length_grid
        filter_grid [of "\<lambda>s. Ry \<and> s \<le> ty \<and> ty < s + ay" "\<lambda>s. Rx \<and> s \<le> tx \<and> tx < s + ax"])
  show ?thesis
  proof (cases "Ry \<and> Rx")
    case True
    then have b: "0 \<le> ty" "ty < fy" "0 \<le> tx" "tx < fx"
      using pad unfolding R t in_slice_def d by (simp; presburger)+
    have "length (filter (\<lambda>s. s \<le> ty \<and> ty < s + ay) (range_up 0 fy ay)) = 1"
      using count_range_up [of ay ty fy 0] pos b by (simp add: d)
    moreover have "length (filter (\<lambda>s. s \<le> tx \<and> tx < s + ax) (range_up 0 fx ax)) = 1"
      using count_range_up [of ax tx fx 0] pos b by (simp add: d)
    ultimately show ?thesis using True len reg by simp
  next
    case False
    then show ?thesis using len reg by auto
  qed
qed

lemma stitch_outside:
  "stitch cfg w Y_pred Y_hat = Inr m \<Longrightarrow> \<not> in_rect (target_rect cfg w) p \<Longrightarrow> m p = Y_hat p"
  by (auto simp: stitch_def Let_def split: if_splits)

lemma stitch_inside:
  "stitch cfg w Y_pred Y_hat = Inr m \<Longrightarrow> in_rect (target_rect cfg w) p \<Longrightarrow> m p \<noteq> None"
  by (auto simp: stitch_def Let_def split: if_splits)

lemma tile_loop_None:
  "tile_loop cfg forward ss Y_hat = Inr m \<Longrightarrow>
   (m p = None \<longleftrightarrow> Y_hat p = None \<and> writers cfg ss p = [])"
proof (induction ss arbitrary: Y_hat)
  case Nil
  then show ?case by (simp add: writers_def)
next
  case (Cons step rest)
  from Cons.prems obtain Y' where
    s: "stitch cfg (window_of cfg step) (forward (tile_crops (window_of cfg step))) Y_hat = Inr Y'"
    and l: "tile_loop cfg forward rest Y' = Inr m"
    by (auto simp: predict_tile_def Let_def split: sum.splits)
  from Cons.IH [OF l] have "m p = None \<longleftrightarrow> Y' p = None \<and> writers cfg rest p = []" .
  moreover have "Y' p = None \<longleftrightarrow> Y_hat p = None \<and> \<not> in_rect (target_rect cfg (window_of cfg step)) p"
    using stitch_outside [OF s, of p] stitch_inside [OF s, of p]
    by (cases "in_rect (target_rect cfg (window_of cfg step)) p") simp_all
  ultimately show ?case by (auto simp: writers_def)
qed

lemma steps_small: "steps cfg_small = Inr [Shape 0 0, Shape 0 12, Shape 12 0, Shape 12 12]"
  by (simp add: steps_def cfg_small_def py_range_def range_up.simps)

lemma run_small: "\<not> isl (tile_and_predict cfg_small (const_forward v))"
  by (simp add: tile_and_predict_def steps_small)
    (simp add: cfg_small_def predict_tile_def stitch_def Let_def window_of_def tile_crops_def
      target_rect_def trim_rect_def y_slice_def x_slice_def slice_indices_def slice_index_def
      slice_len_def broadcastable_def const_forward_def slice_span_def)

lemma run_loop:
  assumes "tile_and_predict cfg forward = Inr m"
  shows "0 \<le> shape_y (final_shape cfg) \<and> 0 \<le> shape_x (final_shape cfg)
       \<and> (\<exists>ss. steps cfg = Inr ss \<and> tile_loop cfg forward ss Y_hat_init = Inr m)"
  using assms by (auto simp: tile_and_predict_def split: if_splits sum.splits)

text \<open>
  Claim C1, as amended. With \<open>stride = ary_shape\<close> positive, a padding of at least 1 on
  both axes and a non-negative extent, the scheduler succeeds and the target rectangles
  \<^verbatim>\<open>Y_hat[:, y_slice, x_slice]\<close> of the scheduled tiles tile \<open>stitched_region\<close> exactly: every
  pixel of that region lies in the target rectangle of exactly one scheduled tile, every
  pixel outside it in none. In every run that completes, a pixel has been written if and
  only if it lies in \<open>stitched_region\<close>, hence by the write of that one tile; the pixels
  outside still hold the fill value.
\<close>

theorem C1_tiling:
  assumes eq: "stride cfg = ary_shape cfg"
    and pos: "0 < shape_y (ary_shape cfg)" "0 < shape_x (ary_shape cfg)"
    and pad1: "1 \<le> shape_y (xtrapad cfg)" "1 \<le> shape_x (xtrapad cfg)"
    and fin: "0 \<le> shape_y (final_shape cfg)" "0 \<le> shape_x (final_shape cfg)"
  shows "(\<exists>ws. scheduled_writers cfg (r, c) = Inr ws
            \<and> length ws = (if in_rect (stitched_region cfg) (r, c) then 1 else 0))
       \<and> (tile_and_predict cfg forward = Inr m
            \<longrightarrow> (m (r, c) = None \<longleftrightarrow> \<not> in_rect (stitched_region cfg) (r, c)))"
proof -
  have sp: "0 < shape_y (stride cfg)" "0 < shape_x (stride cfg)" using eq pos by simp_all
  have pad: "0 \<le> shape_y (xtrapad cfg)" "0 \<le> shape_x (xtrapad cfg)" using pad1 by simp_all
  from steps_positive [OF sp] obtain ss where ss: "steps cfg = Inr ss" by blast
  note cnt = writers_count [OF eq pos pad fin ss, of r c]
  have first: "\<exists>ws. scheduled_writers cfg (r, c) = Inr ws
            \<and> length ws = (if in_rect (stitched_region cfg) (r, c) then 1 else 0)"
    using ss cnt by (simp add: scheduled_writers_def)
  have second: "m (r, c) = None \<longleftrightarrow> \<not> in_rect (stitched_region cfg) (r, c)"
    if run: "tile_and_predict cfg forward = Inr m"
  proof -
    from run_loop [OF run] ss have "tile_loop cfg forward ss Y_hat_init = Inr m" by auto
    from tile_loop_None [OF this, of "(r, c)"]
    have "m (r, c) = None \<longleftrightarrow> writers cfg ss (r, c) = []" by (simp add: Y_hat_init_def)
    also have "\<dots> \<longleftrightarrow> \<not> in_rect (stitched_region cfg) (r, c)"
      using cnt by (auto split: if_splits)
    finally show ?thesis .
  qed
  from first second show ?thesis by blast
qed

lemma run_small_Inr:
  "tile_and_predict cfg_small (const_forward v)
     = Inr (projr (tile_and_predict cfg_small (const_forward v)))"
  using run_small [of v] by (cases "tile_and_predict cfg_small (const_forward v)") simp_all

theorem C1_tiling_witness:
  "stride cfg_small = ary_shape cfg_small
   \<and> 0 < shape_y (ary_shape cfg_small) \<and> 0 < shape_x (ary_shape cfg_small)
   \<and> 1 \<le> shape_y (xtrapad cfg_small) \<and> 1 \<le> shape_x (xtrapad cfg_small)
   \<and> 0 \<le> shape_y (final_shape cfg_small) \<and> 0 \<le> shape_x (final_shape cfg_small)
   \<and> stitched_region cfg_small = ((8, 16), (8, 16))
   \<and> (\<exists>ws. scheduled_writers cfg_small (13, 9) = Inr ws \<and> length ws = 1)
   \<and> tile_and_predict cfg_small (const_forward (7::int))
        = Inr (projr (tile_and_predict cfg_small (const_forward 7)))
   \<and> projr (tile_and_predict cfg_small (const_forward (7::int))) (13, 9) \<noteq> None"
proof -
  have h: "stride cfg_small = ary_shape cfg_small"
    "0 < shape_y (ary_shape cfg_small)" "0 < shape_x (ary_shape cfg_small)"
    "1 \<le> shape_y (xtrapad cfg_small)" "1 \<le> shape_x (xtrapad cfg_small)"
    "0 \<le> shape_y (final_shape cfg_small)" "0 \<le> shape_x (final_shape cfg_small)"
    by (simp_all add: cfg_small_def)
  have reg: "stitched_region cfg_small = ((8, 16), (8, 16))"
    by (simp add: stitched_region_def cfg_small_def)
  have inr: "in_rect ((8, 16), (8, 16)) (13, 9)" by (simp add: in_rect_def in_slice_def)
  from C1_tiling [OF h, of 13 9 "const_forward (7::int)"
      "projr (tile_and_predict cfg_small (const_forward (7::int)))"]
    run_small_Inr [of "7::int"] h reg inr
  show ?thesis by simp
qed

text \<open>
  Claim C1 as stated fails: in the 1000 by 1000 mosaic cut into tiles of 400 by 400 with
  the script's padding, no scheduled tile writes the pixel (0, 0), nor the pixel (999, 999).
\<close>

theorem C1_counterexample:
  "scheduled_writers (cfg_1000 (Shape 18 18)) (0, 0) = Inr []
   \<and> scheduled_writers (cfg_1000 (Shape 18 18)) (999, 999) = Inr []
   \<and> in_rect ((0, shape_y (final_shape (cfg_1000 (Shape 18 18)))),
               (0, shape_x (final_shape (cfg_1000 (Shape 18 18))))) (0, 0)"
  by (simp add: scheduled_writers_def steps_1000 writers_def)
    (simp add: cfg_1000_def in_rect_def in_slice_def target_rect_def window_of_def
      y_slice_def x_slice_def slice_indices_def slice_index_def)

section \<open>What is exported\<close>

lemma slice_index_le: "0 \<le> n \<Longrightarrow> slice_index n i \<le> n"
  by (simp add: slice_index_def)

lemma slice_index_nonneg: "0 \<le> i \<Longrightarrow> slice_index n i = min i n"
  by (simp add: slice_index_def)

lemma border_row_unwritten:
  assumes "0 \<le> f" "0 \<le> p" "r < (p + 1) * 4"
  shows "\<not> in_slice (axis_slice f a p s) r"
proof -
  define start where "start = (max 0 (s div 4 - p - 1) + p + 1) * 4"
  define stop where "stop = (min (f div 4) ((s + a) div 4 + p + 1) - p - 1) * 4"
  have b: "r < start" "0 \<le> start" using assms by (simp_all add: start_def max_def)
  have lo: "slice_index f start = min start f" using b(2) by (rule slice_index_nonneg)
  have hi: "slice_index f stop \<le> f" using assms(1) by (rule slice_index_le)
  have ax: "axis_slice f a p s = (slice_index f start, slice_index f stop)"
    by (simp only: axis_slice_def slice_indices_def start_def stop_def fst_conv snd_conv)
  have "\<not> (min start f \<le> r \<and> r < slice_index f stop)" using b(1) hi by linarith
  then show ?thesis by (simp add: ax in_slice_def lo)
qed

text \<open>
  Claim C4, as amended. There is no check of the mosaic after the loop: the result of a run
  that completes is the mosaic as the loop over the scheduled tiles left it. With a
  non-negative row padding, every pixel in the first \<open>(xtrapad.y + 1) * 4\<close> rows of that
  result still holds the fill value, and the run completes all the same.
\<close>

theorem C4_sentinel_exported:
  assumes "tile_and_predict cfg forward = Inr m"
    and "0 \<le> shape_y (xtrapad cfg)"
    and "r < (shape_y (xtrapad cfg) + 1) * 4"
  shows "(\<exists>ss. steps cfg = Inr ss \<and> tile_loop cfg forward ss Y_hat_init = Inr m)
       \<and> m (r, c) = None"
proof -
  from run_loop [OF assms(1)] obtain ss where fy: "0 \<le> shape_y (final_shape cfg)"
    and ss: "steps cfg = Inr ss" and l: "tile_loop cfg forward ss Y_hat_init = Inr m" by blast
  have "writers cfg ss (r, c) = []"
    unfolding writers_def filter_empty_conv target_axis
    using border_row_unwritten [OF fy assms(2,3)] by simp
  with tile_loop_None [OF l, of "(r, c)"] have "m (r, c) = None" by (simp add: Y_hat_init_def)
  with ss l show ?thesis by blast
qed

theorem C4_sentinel_exported_witness:
  "tile_and_predict cfg_small (const_forward (7::int))
        = Inr (projr (tile_and_predict cfg_small (const_forward 7)))
   \<and> 0 \<le> shape_y (xtrapad cfg_small)
   \<and> (0::int) < (shape_y (xtrapad cfg_small) + 1) * 4
   \<and> projr (tile_and_predict cfg_small (const_forward (7::int))) (0, 0) = None"
proof -
  have h: "0 \<le> shape_y (xtrapad cfg_small)" "(0::int) < (shape_y (xtrapad cfg_small) + 1) * 4"
    by (simp_all add: cfg_small_def)
  from C4_sentinel_exported [OF run_small_Inr [of "7::int"] h, of 0] run_small_Inr [of "7::int"] h
  show ?thesis by simp
qed

text \<open>
  Claim C4 as stated fails: the run on the 24 by 24 mosaic completes without an error, and
  the pixel (23, 5) of its result, inside the mosaic, still holds the fill value.
\<close>

theorem C4_counterexample:
  "\<not> isl (tile_and_predict cfg_small (const_forward (7::int)))
   \<and> in_rect ((0, shape_y (final_shape cfg_small)), (0, shape_x (final_shape cfg_small))) (23, 5)
   \<and> projr (tile_and_predict cfg_small (const_forward (7::int))) (23, 5) = None"
  by (simp add: tile_and_predict_def steps_small)
    (simp add: cfg_small_def predict_tile_def stitch_def Let_def window_of_def tile_crops_def
      target_rect_def trim_rect_def y_slice_def x_slice_def slice_indices_def slice_index_def
      slice_len_def broadcastable_def const_forward_def slice_span_def in_rect_def in_slice_def
      Y_hat_init_def)

section \<open>A stride that is not the tile size\<close>





section \<open>The frame of one tile's write\<close>

lemma floor4_le: "(s::int) \<le> 4 * (r div 4) + 3 \<Longrightarrow> 4 * (s div 4) \<le> r"
  by presburger

lemma floor4_lt: "4 * ((r::int) div 4) + 3 < e \<Longrightarrow> r < e"
  by presburger

lemma predict_tile_outside:
  "predict_tile cfg forward step Y_hat = Inr Y_hat' \<Longrightarrow>
   \<not> in_rect (target_rect cfg (window_of cfg step)) p \<Longrightarrow> Y_hat' p = Y_hat p"
  by (simp add: predict_tile_def Let_def stitch_outside)

lemma origin_of_cover:
  fixes a s t :: int
  assumes "0 < a" "a dvd s" "s \<le> t" "t < s + a"
  shows "s = a * (t div a)"
proof -
  from assms(2) obtain k where k: "s = a * k" by (auto simp: dvd_def)
  have "t = a * k + (t - a * k)" by simp
  moreover have "0 \<le> t - a * k" "t - a * k < a" using assms(3,4) k by simp_all
  ultimately have "t div a = k" using int_div_pos_eq by blast
  with k show ?thesis by simp
qed

lemma covered_range:
  assumes ss: "steps cfg = Inr ss" and mem: "step \<in> set ss"
    and fin: "0 \<le> shape_y (final_shape cfg)" "0 \<le> shape_x (final_shape cfg)"
    and ary: "0 \<le> shape_y (ary_shape cfg)" "0 \<le> shape_x (ary_shape cfg)"
    and pad: "0 \<le> shape_y (xtrapad cfg)" "0 \<le> shape_x (xtrapad cfg)"
    and cov: "in_rect (target_rect cfg (window_of cfg step)) (r, c)"
  shows "shape_y step \<le> 4 * (r div 4) + 3 \<and> 4 * (r div 4) + 3 < shape_y step + shape_y (ary_shape cfg)
       \<and> shape_x step \<le> 4 * (c div 4) + 3 \<and> 4 * (c div 4) + 3 < shape_x step + shape_x (ary_shape cfg)"
proof -
  from scheduled_origin [OF ss mem fin]
  have o: "0 \<le> shape_y step" "0 \<le> shape_x step" by simp_all
  from cov show ?thesis
    unfolding target_axis
    using axis_cover [OF fin(1) o(1) ary(1) pad(1), of r]
      axis_cover [OF fin(2) o(2) ary(2) pad(2), of c]
    by simp
qed

text \<open>
  Claim C10, as amended. For a scheduled tile, with non-negative sizes, a write that
  succeeds changes only pixels with
  \<open>4 * (step.y div 4) \<le> r < step.y + ary_shape.y\<close> and the same for the columns; every
  other pixel keeps its value. When both coordinates of the origin are multiples of 4 that
  rectangle lies inside the nominal one, \<open>[step.y, step.y + ary_shape.y * 4)\<close> by
  \<open>[step.x, step.x + ary_shape.x * 4)\<close>. With \<open>stride = ary_shape\<close>, two distinct scheduled
  tiles never write the same pixel, aligned or not.
\<close>

theorem C10_write_frame:
  assumes ss: "steps cfg = Inr ss" and mem: "step \<in> set ss"
    and fin: "0 \<le> shape_y (final_shape cfg)" "0 \<le> shape_x (final_shape cfg)"
    and ary: "0 \<le> shape_y (ary_shape cfg)" "0 \<le> shape_x (ary_shape cfg)"
    and pad: "0 \<le> shape_y (xtrapad cfg)" "0 \<le> shape_x (xtrapad cfg)"
    and run: "predict_tile cfg forward step Y_hat = Inr Y_hat'"
  shows "(\<not> (4 * (shape_y step div 4) \<le> r \<and> r < shape_y step + shape_y (ary_shape cfg)
            \<and> 4 * (shape_x step div 4) \<le> c \<and> c < shape_x step + shape_x (ary_shape cfg))
          \<longrightarrow> Y_hat' (r, c) = Y_hat (r, c))
       \<and> (4 dvd shape_y step \<and> 4 dvd shape_x step
            \<and> \<not> (shape_y step \<le> r \<and> r < shape_y step + shape_y (ary_shape cfg) * 4
                  \<and> shape_x step \<le> c \<and> c < shape_x step + shape_x (ary_shape cfg) * 4)
          \<longrightarrow> Y_hat' (r, c) = Y_hat (r, c))
       \<and> (stride cfg = ary_shape cfg \<and> other \<in> set ss \<and> other \<noteq> step
          \<longrightarrow> \<not> (in_rect (target_rect cfg (window_of cfg step)) (r, c)
                  \<and> in_rect (target_rect cfg (window_of cfg other)) (r, c)))"
proof -
  define sy sx ay ax where d: "sy = shape_y step" "sx = shape_x step"
    "ay = shape_y (ary_shape cfg)" "ax = shape_x (ary_shape cfg)"
  have inside: "4 * (sy div 4) \<le> r \<and> r < sy + ay \<and> 4 * (sx div 4) \<le> c \<and> c < sx + ax"
    if cov: "in_rect (target_rect cfg (window_of cfg step)) (r, c)"
  proof -
    from covered_range [OF ss mem fin ary pad cov]
    have "sy \<le> 4 * (r div 4) + 3" "4 * (r div 4) + 3 < sy + ay"
      "sx \<le> 4 * (c div 4) + 3" "4 * (c div 4) + 3 < sx + ax" by (simp_all add: d)
    then show ?thesis using floor4_le [of sy r] floor4_le [of sx c]
        floor4_lt [of r "sy + ay"] floor4_lt [of c "sx + ax"] by simp
  qed
  have A: "Y_hat' (r, c) = Y_hat (r, c)"
    if "\<not> (4 * (sy div 4) \<le> r \<and> r < sy + ay \<and> 4 * (sx div 4) \<le> c \<and> c < sx + ax)"
    using that inside predict_tile_outside [OF run, of "(r, c)"] by blast
  have B: "Y_hat' (r, c) = Y_hat (r, c)"
    if al: "4 dvd sy" "4 dvd sx"
      and out: "\<not> (sy \<le> r \<and> r < sy + ay * 4 \<and> sx \<le> c \<and> c < sx + ax * 4)"
  proof -
    have "4 * (sy div 4) = sy" "4 * (sx div 4) = sx" using al by simp_all
    moreover have "sy + ay \<le> sy + ay * 4" "sx + ax \<le> sx + ax * 4" using ary by (simp_all add: d)
    ultimately have "\<not> (4 * (sy div 4) \<le> r \<and> r < sy + ay \<and> 4 * (sx div 4) \<le> c \<and> c < sx + ax)"
      using out by linarith
    then show ?thesis by (rule A)
  qed
  have C: "\<not> (in_rect (target_rect cfg (window_of cfg step)) (r, c)
             \<and> in_rect (target_rect cfg (window_of cfg other)) (r, c))"
    if eq: "stride cfg = ary_shape cfg" and om: "other \<in> set ss" and ne: "other \<noteq> step"
  proof
    assume both: "in_rect (target_rect cfg (window_of cfg step)) (r, c)
             \<and> in_rect (target_rect cfg (window_of cfg other)) (r, c)"
    note c1 = covered_range [OF ss mem fin ary pad conjunct1 [OF both]]
    note c2 = covered_range [OF ss om fin ary pad conjunct2 [OF both]]
    note o1 = scheduled_origin [OF ss mem fin]
    note o2 = scheduled_origin [OF ss om fin]
    have py: "0 < shape_y (ary_shape cfg)" "shape_y (ary_shape cfg) dvd shape_y step"
      "shape_y (ary_shape cfg) dvd shape_y other" using o1 o2 eq by simp_all
    have px: "0 < shape_x (ary_shape cfg)" "shape_x (ary_shape cfg) dvd shape_x step"
      "shape_x (ary_shape cfg) dvd shape_x other" using o1 o2 eq by simp_all
    have "shape_y step = shape_y other"
      using origin_of_cover [OF py(1,2), of "4 * (r div 4) + 3"]
        origin_of_cover [OF py(1,3), of "4 * (r div 4) + 3"] c1 c2 by simp
    moreover have "shape_x step = shape_x other"
      using origin_of_cover [OF px(1,2), of "4 * (c div 4) + 3"]
        origin_of_cover [OF px(1,3), of "4 * (c div 4) + 3"] c1 c2 by simp
    ultimately have "step = other" by (simp add: Shape.expand)
    with ne show False by simp
  qed
  show ?thesis
  proof (intro conjI impI)
    assume "\<not> (4 * (shape_y step div 4) \<le> r \<and> r < shape_y step + shape_y (ary_shape cfg)
            \<and> 4 * (shape_x step div 4) \<le> c \<and> c < shape_x step + shape_x (ary_shape cfg))"
    then show "Y_hat' (r, c) = Y_hat (r, c)" by (rule A [unfolded d])
  next
    assume h: "4 dvd shape_y step \<and> 4 dvd shape_x step
            \<and> \<not> (shape_y step \<le> r \<and> r < shape_y step + shape_y (ary_shape cfg) * 4
                  \<and> shape_x step \<le> c \<and> c < shape_x step + shape_x (ary_shape cfg) * 4)"
    show "Y_hat' (r, c) = Y_hat (r, c)"
      using B [unfolded d, OF conjunct1 [OF h] conjunct1 [OF conjunct2 [OF h]]
          conjunct2 [OF conjunct2 [OF h]]] .
  next
    assume h: "stride cfg = ary_shape cfg \<and> other \<in> set ss \<and> other \<noteq> step"
    show "\<not> (in_rect (target_rect cfg (window_of cfg step)) (r, c)
             \<and> in_rect (target_rect cfg (window_of cfg other)) (r, c))"
      using C [OF conjunct1 [OF h] conjunct1 [OF conjunct2 [OF h]]
          conjunct2 [OF conjunct2 [OF h]]] .
  qed
qed

lemma tile_small:
  "\<not> isl (predict_tile cfg_small (const_forward v) (Shape 12 12) Y_hat_init)"
  by (simp add: cfg_small_def predict_tile_def stitch_def Let_def window_of_def tile_crops_def
      target_rect_def trim_rect_def y_slice_def x_slice_def slice_indices_def slice_index_def
      slice_len_def broadcastable_def const_forward_def slice_span_def)

lemma tile_small_Inr:
  "predict_tile cfg_small (const_forward v) (Shape 12 12) Y_hat_init
     = Inr (projr (predict_tile cfg_small (const_forward v) (Shape 12 12) Y_hat_init))"
  using tile_small [of v]
  by (cases "predict_tile cfg_small (const_forward v) (Shape 12 12) Y_hat_init") simp_all

theorem C10_write_frame_witness:
  "steps cfg_small = Inr [Shape 0 0, Shape 0 12, Shape 12 0, Shape 12 12]
   \<and> stride cfg_small = ary_shape cfg_small
   \<and> (4::int) dvd 12 \<and> \<not> ((12::int) \<le> 0)
   \<and> predict_tile cfg_small (const_forward (7::int)) (Shape 12 12) Y_hat_init
       = Inr (projr (predict_tile cfg_small (const_forward 7) (Shape 12 12) Y_hat_init))
   \<and> projr (predict_tile cfg_small (const_forward (7::int)) (Shape 12 12) Y_hat_init) (0, 0)
       = Y_hat_init (0, 0)
   \<and> \<not> (in_rect (target_rect cfg_small (window_of cfg_small (Shape 12 12))) (13, 13)
          \<and> in_rect (target_rect cfg_small (window_of cfg_small (Shape 0 0))) (13, 13))"
proof -
  have m: "Shape 12 12 \<in> set [Shape 0 0, Shape 0 12, Shape 12 0, Shape 12 12]"
    "Shape 0 0 \<in> set [Shape 0 0, Shape 0 12, Shape 12 0, Shape 12 12]"
    "Shape 0 0 \<noteq> Shape 12 12" by simp_all
  have h: "0 \<le> shape_y (final_shape cfg_small)" "0 \<le> shape_x (final_shape cfg_small)"
    "0 \<le> shape_y (ary_shape cfg_small)" "0 \<le> shape_x (ary_shape cfg_small)"
    "0 \<le> shape_y (xtrapad cfg_small)" "0 \<le> shape_x (xtrapad cfg_small)"
    by (simp_all add: cfg_small_def)
  have e: "stride cfg_small = ary_shape cfg_small" by (simp add: cfg_small_def)
  note t = tile_small_Inr [of "7::int"]
  from C10_write_frame [OF steps_small m(1) h t, of 0 0 "Shape 0 0"]
    C10_write_frame [OF steps_small m(1) h t, of 13 13 "Shape 0 0"]
    steps_small m e t
  show ?thesis by simp
qed

lemma steps_unaligned:
  "steps cfg_unaligned =
     Inr [Shape 0 0, Shape 0 10, Shape 0 20, Shape 0 30,
          Shape 10 0, Shape 10 10, Shape 10 20, Shape 10 30,
          Shape 20 0, Shape 20 10, Shape 20 20, Shape 20 30,
          Shape 30 0, Shape 30 10, Shape 30 20, Shape 30 30]"
  by (simp add: steps_def cfg_unaligned_def py_range_def range_up.simps)

text \<open>
  Claim C10 as stated fails for an origin that is not a multiple of 4: with tiles of 10 by
  10 the tile at (10, 10) is scheduled, its write succeeds, and it stores a value at the
  pixel (8, 8), which is outside \<open>[10, 50)\<close> by \<open>[10, 50)\<close>.
\<close>

theorem C10_counterexample:
  "Shape 10 10 \<in> set (projr (steps cfg_unaligned))
   \<and> \<not> isl (predict_tile cfg_unaligned (const_forward (7::int)) (Shape 10 10) Y_hat_init)
   \<and> Y_hat_init (8, 8) = (None :: int option)
   \<and> projr (predict_tile cfg_unaligned (const_forward (7::int)) (Shape 10 10) Y_hat_init) (8, 8)
       = Some 7
   \<and> \<not> in_rect ((10, 10 + shape_y (ary_shape cfg_unaligned) * 4),
                  (10, 10 + shape_x (ary_shape cfg_unaligned) * 4)) (8, 8)"
  by (simp add: steps_unaligned)
    (simp add: cfg_unaligned_def predict_tile_def stitch_def Let_def window_of_def tile_crops_def
      target_rect_def trim_rect_def y_slice_def x_slice_def slice_indices_def slice_index_def
      slice_len_def broadcastable_def const_forward_def slice_span_def in_rect_def in_slice_def
      source_index_def Y_hat_init_def)

section \<open>The boundary scenario\<close>

lemma predict_tile_inside:
  "predict_tile cfg forward step Y_hat = Inr Y_hat' \<Longrightarrow>
   in_rect (target_rect cfg (window_of cfg step)) p \<Longrightarrow> Y_hat' p \<noteq> None"
  by (simp add: predict_tile_def Let_def stitch_inside)

lemma target_1000:
  assumes "1 \<le> py" "py \<le> 49" "1 \<le> px" "px \<le> 49"
  shows "target_rect (cfg_1000 (Shape py px))
           (window_of (cfg_1000 (Shape py px)) (Shape 800 800))
           = ((800, 996 - 4 * py), (800, 996 - 4 * px))"
  using assms
  by (simp add: cfg_1000_def target_rect_def window_of_def y_slice_def x_slice_def
      slice_indices_def slice_index_def)

text \<open>
  Claim C3, as amended. The scheduler yields the nine origins in row-major order. For a
  padding between 1 and 49 the tile at (800, 800) produces the target write rectangle
  \<open>[800, 996 - 4 * xtrapad)\<close> on each axis: the far edge of the window is clamped to the
  primary extent 250, and the padding and one more pixel are taken off it. For the script's
  padding of 18 that is \<open>[800, 924)\<close>, 124 by 124 pixels. A write of that tile that succeeds
  stores a value at every pixel of that rectangle and leaves every other pixel as it was.
\<close>

theorem C3_boundary:
  assumes "1 \<le> py" "py \<le> 49" "1 \<le> px" "px \<le> 49"
  shows "steps (cfg_1000 (Shape py px)) =
           Inr [Shape 0 0, Shape 0 400, Shape 0 800,
                Shape 400 0, Shape 400 400, Shape 400 800,
                Shape 800 0, Shape 800 400, Shape 800 800]
       \<and> target_rect (cfg_1000 (Shape py px))
           (window_of (cfg_1000 (Shape py px)) (Shape 800 800))
           = ((800, 996 - 4 * py), (800, 996 - 4 * px))
       \<and> (predict_tile (cfg_1000 (Shape py px)) forward (Shape 800 800) Y_hat = Inr Y_hat'
            \<longrightarrow> (if 800 \<le> r \<and> r < 996 - 4 * py \<and> 800 \<le> c \<and> c < 996 - 4 * px
                 then Y_hat' (r, c) \<noteq> None else Y_hat' (r, c) = Y_hat (r, c)))"
proof -
  note t = target_1000 [OF assms]
  have w: "if 800 \<le> r \<and> r < 996 - 4 * py \<and> 800 \<le> c \<and> c < 996 - 4 * px
           then Y_hat' (r, c) \<noteq> None else Y_hat' (r, c) = Y_hat (r, c)"
    if run: "predict_tile (cfg_1000 (Shape py px)) forward (Shape 800 800) Y_hat = Inr Y_hat'"
  proof (cases "800 \<le> r \<and> r < 996 - 4 * py \<and> 800 \<le> c \<and> c < 996 - 4 * px")
    case True
    then have "in_rect (target_rect (cfg_1000 (Shape py px))
        (window_of (cfg_1000 (Shape py px)) (Shape 800 800))) (r, c)"
      by (simp add: t in_rect_def in_slice_def)
    then show ?thesis unfolding if_P [OF True] by (rule predict_tile_inside [OF run])
  next
    case False
    then have "\<not> in_rect (target_rect (cfg_1000 (Shape py px))
        (window_of (cfg_1000 (Shape py px)) (Shape 800 800))) (r, c)"
      by (simp add: t in_rect_def in_slice_def)
    then show ?thesis unfolding if_not_P [OF False] by (rule predict_tile_outside [OF run])
  qed
  from steps_1000 [of "Shape py px"] t w show ?thesis by blast
qed

lemma run_1000: "\<not> isl (tile_and_predict (cfg_1000 (Shape 18 18)) (const_forward v))"
  by (simp add: tile_and_predict_def steps_1000)
    (simp add: cfg_1000_def predict_tile_def stitch_def Let_def window_of_def tile_crops_def
      target_rect_def trim_rect_def y_slice_def x_slice_def slice_indices_def slice_index_def
      slice_len_def broadcastable_def const_forward_def slice_span_def)

lemma tile_1000:
  "\<not> isl (predict_tile (cfg_1000 (Shape 18 18)) (const_forward v) (Shape 800 800) Y_hat_init)"
  by (simp add: cfg_1000_def predict_tile_def stitch_def Let_def window_of_def tile_crops_def
      target_rect_def trim_rect_def y_slice_def x_slice_def slice_indices_def slice_index_def
      slice_len_def broadcastable_def const_forward_def slice_span_def)

lemma tile_1000_Inr:
  "predict_tile (cfg_1000 (Shape 18 18)) (const_forward v) (Shape 800 800) Y_hat_init
     = Inr (projr (predict_tile (cfg_1000 (Shape 18 18)) (const_forward v) (Shape 800 800)
                     Y_hat_init))"
  using tile_1000 [of v]
  by (cases "predict_tile (cfg_1000 (Shape 18 18)) (const_forward v) (Shape 800 800) Y_hat_init")
    simp_all

theorem C3_boundary_witness:
  "(1::int) \<le> 18 \<and> (18::int) \<le> 49
   \<and> \<not> isl (tile_and_predict (cfg_1000 (Shape 18 18)) (const_forward (7::int)))
   \<and> steps (cfg_1000 (Shape 18 18)) =
           Inr [Shape 0 0, Shape 0 400, Shape 0 800,
                Shape 400 0, Shape 400 400, Shape 400 800,
                Shape 800 0, Shape 800 400, Shape 800 800]
   \<and> target_rect (cfg_1000 (Shape 18 18))
           (window_of (cfg_1000 (Shape 18 18)) (Shape 800 800))
           = ((800, 996 - 4 * 18), (800, 996 - 4 * 18))
   \<and> predict_tile (cfg_1000 (Shape 18 18)) (const_forward (7::int)) (Shape 800 800) Y_hat_init
       = Inr (projr (predict_tile (cfg_1000 (Shape 18 18)) (const_forward 7) (Shape 800 800)
                       Y_hat_init))
   \<and> projr (predict_tile (cfg_1000 (Shape 18 18)) (const_forward (7::int)) (Shape 800 800)
              Y_hat_init) (900, 923) \<noteq> None
   \<and> projr (predict_tile (cfg_1000 (Shape 18 18)) (const_forward (7::int)) (Shape 800 800)
              Y_hat_init) (900, 924) = Y_hat_init (900, 924)"
proof -
  have h: "(1::int) \<le> 18" "(18::int) \<le> 49" by simp_all
  note t = tile_1000_Inr [of "7::int"]
  from C3_boundary [OF h h, of "const_forward (7::int)" Y_hat_init
      "projr (predict_tile (cfg_1000 (Shape 18 18)) (const_forward (7::int)) (Shape 800 800)
                Y_hat_init)" 900 923]
    C3_boundary [OF h h, of "const_forward (7::int)" Y_hat_init
      "projr (predict_tile (cfg_1000 (Shape 18 18)) (const_forward (7::int)) (Shape 800 800)
                Y_hat_init)" 900 924]
    t run_1000 [of "7::int"]
  show ?thesis by simp
qed

text \<open>
  Claim C3 as stated fails in its second half: with the script's padding the rectangle
  written by the tile at (800, 800) is \<open>[800, 924)\<close> on each axis, 124 pixels and not 200.
\<close>

theorem C3_counterexample:
  "target_rect (cfg_1000 (Shape 18 18)) (window_of (cfg_1000 (Shape 18 18)) (Shape 800 800))
     = ((800, 924), (800, 924))
   \<and> slice_len (800, 924) = 124
   \<and> target_rect (cfg_1000 (Shape 18 18)) (window_of (cfg_1000 (Shape 18 18)) (Shape 800 800))
     \<noteq> ((800, 1000), (800, 1000))"
  by (simp add: cfg_1000_def target_rect_def window_of_def y_slice_def x_slice_def
      slice_indices_def slice_index_def slice_len_def)

end
